theory Spec2Isabelle
  imports Main
begin

unbundle bit_operations_syntax

section \<open>sdget: looking up a key in DNS TXT records\<close>

text \<open>
  The development embeds the core of the two variants of \<^verbatim>\<open>sdget\<close>: the later one
  (\<^verbatim>\<open>src/main.go\<close>, version 0.4.0, with the \<^verbatim>\<open>nameserver\<close> option and the
  \<^verbatim>\<open>zero\<close> format flag) and the earlier one (\<^verbatim>\<open>src/unnamed/part_001\<close>). Each has a
  function \<^verbatim>\<open>lookUpValues\<close> and a function \<^verbatim>\<open>output\<close>; the definitions of the
  earlier variant carry the suffix \<open>_v1\<close>.

  A Go string is a sequence of bytes, here a \<^typ>\<open>string\<close> (a list of 8-bit
  characters), compared byte by byte.
\<close>

subsection \<open>Go slices\<close>

text \<open>
  A value of type \<^verbatim>\<open>[]string\<close> is either the nil slice or a slice with elements
  (possibly none). Both have length 0 when they hold nothing, and \<^verbatim>\<open>range\<close> visits
  the elements of either one; they differ where the program tests for nil (as
  \<^verbatim>\<open>main\<close> does on the defaults) and in the JSON encoder, which writes
  \<^verbatim>\<open>null\<close> for the nil slice.
\<close>

datatype 'a slice = NilSlice | Slice "'a list"

fun elems :: "'a slice \<Rightarrow> 'a list" where
  "elems NilSlice = []"
| "elems (Slice xs) = xs"

definition len :: "'a slice \<Rightarrow> nat" where
  "len s = length (elems s)"

text \<open>\<^verbatim>\<open>append(s, x)\<close>: the result is never nil.\<close>

definition append_slice :: "'a slice \<Rightarrow> 'a \<Rightarrow> 'a slice" where
  "append_slice s x = Slice (elems s @ [x])"

subsection \<open>Splitting a record\<close>

text \<open>
  \<^verbatim>\<open>strings.IndexByte(s, c)\<close>: the index of the first byte \<open>c\<close> in \<open>s\<close>, if there is
  one (Go returns -1 otherwise).
\<close>

fun IndexByte :: "string \<Rightarrow> char \<Rightarrow> nat option" where
  "IndexByte [] c = None"
| "IndexByte (x # xs) c = (if x = c then Some 0 else map_option Suc (IndexByte xs c))"

text \<open>
  \<^verbatim>\<open>strings.SplitN(s, sep, 2)\<close> for a separator of one byte, the only use the
  program makes of it: the standard library looks for the first occurrence of the
  separator and returns the one-element slice \<^verbatim>\<open>[s]\<close> when there is none (also
  for the empty \<open>s\<close>), and \<^verbatim>\<open>[s[:m], s[m+1:]]\<close> when the first occurrence is at
  index \<open>m\<close>.
\<close>

definition SplitN2 :: "string \<Rightarrow> char \<Rightarrow> string list" where
  "SplitN2 s sep =
     (case IndexByte s sep of
        None \<Rightarrow> [s]
      | Some m \<Rightarrow> [take m s, drop (m + 1) s])"

subsection \<open>Options\<close>

text \<open>
  The earlier variant's \<^verbatim>\<open>options\<close> struct has two fields; the later variant adds
  \<^verbatim>\<open>nameserver\<close>.
\<close>

record options_v1 =
  outputFormat :: string
  valueType :: string

record options = options_v1 +
  nameserver :: string

subsection \<open>The lookup\<close>

text \<open>
  The two calls of \<^verbatim>\<open>errors.Errorf\<close> in \<^verbatim>\<open>lookUpValues\<close>, each with its
  arguments: the key, and the count and the key.
\<close>

datatype lookup_error =
    NoValue string
  | TooManyValues nat string

text \<open>The verb \<^verbatim>\<open>%d\<close> on a length: its decimal digits.\<close>

fun digit :: "nat \<Rightarrow> char" where
  "digit n = char_of (n + 48)"

fun decimal :: "nat \<Rightarrow> string" where
  "decimal n = (if n < 10 then [digit n] else decimal (n div 10) @ [digit (n mod 10)])"

declare decimal.simps [simp del]

text \<open>The message of each error, as the format strings of the source give it.\<close>

fun Error :: "lookup_error \<Rightarrow> string" where
  "Error (NoValue key) =
     ''no values found for key '' @ key @ '', and no default provided''"
| "Error (TooManyValues n key) =
     decimal n @ '' values found for key '' @ key @ '', but only 1 was expected''"

text \<open>
  The loop of \<^verbatim>\<open>lookUpValues\<close> over the records, with the accumulator
  \<^verbatim>\<open>values\<close> as an argument. Both reads of \<^verbatim>\<open>pieces\<close> are within its length
  where they are made: the split returns at least one piece, and the second piece is
  read only when there are two.
\<close>

fun lookUpValues_loop :: "string \<Rightarrow> string slice \<Rightarrow> string list \<Rightarrow> string slice" where
  "lookUpValues_loop key values [] = values"
| "lookUpValues_loop key values (record # rest) =
     (let pieces = SplitN2 record (CHR ''='') in
      if length pieces > 1 \<and> pieces ! 0 = key
      then lookUpValues_loop key (append_slice values (pieces ! 1)) rest
      else lookUpValues_loop key values rest)"

text \<open>
  The condition of the loop on its own, to say which records match a key: the record
  splits into two pieces and the first one is the key.
\<close>

definition matches :: "string \<Rightarrow> string \<Rightarrow> bool" where
  "matches key record =
     (let pieces = SplitN2 record (CHR ''='') in length pieces > 1 \<and> pieces ! 0 = key)"

text \<open>
  The body of \<^verbatim>\<open>lookUpValues\<close> is the same text in both variants, in three
  steps. The first two are named here, so that the value of \<^verbatim>\<open>values\<close> after
  each can be spoken of: after the loop, which starts from the nil slice
  (\<^verbatim>\<open>var values []string\<close>), and after the defaults have replaced an empty
  result.
\<close>

definition values_after_loop :: "string slice \<Rightarrow> string \<Rightarrow> string slice" where
  "values_after_loop txtRecords key = lookUpValues_loop key NilSlice (elems txtRecords)"

definition values_after_default :: "string slice \<Rightarrow> string \<Rightarrow> string slice \<Rightarrow> string slice" where
  "values_after_default txtRecords key defaultValues =
     (let values = values_after_loop txtRecords key in
      if len values = 0 then defaultValues else values)"

text \<open>\<^verbatim>\<open>lookUpValues\<close> of \<^verbatim>\<open>src/main.go\<close>; an error return is \<open>Inl\<close>.\<close>

definition lookUpValues ::
  "options \<Rightarrow> string slice \<Rightarrow> string \<Rightarrow> string slice \<Rightarrow> lookup_error + string slice" where
  "lookUpValues opts txtRecords key defaultValues =
     (let values = values_after_default txtRecords key defaultValues in
      if valueType opts = ''single'' then
        if len values = 0 then Inl (NoValue key)
        else if len values > 1 then Inl (TooManyValues (len values) key)
        else Inr values
      else Inr values)"

text \<open>\<^verbatim>\<open>lookUpValues\<close> of the earlier variant.\<close>

definition lookUpValues_v1 ::
  "options_v1 \<Rightarrow> string slice \<Rightarrow> string \<Rightarrow> string slice \<Rightarrow> lookup_error + string slice" where
  "lookUpValues_v1 opts txtRecords key defaultValues =
     (let values = values_after_default txtRecords key defaultValues in
      if valueType opts = ''single'' then
        if len values = 0 then Inl (NoValue key)
        else if len values > 1 then Inl (TooManyValues (len values) key)
        else Inr values
      else Inr values)"

subsection \<open>The parser and the accumulator as the specification words them\<close>

text \<open>
  The specification's parser: a record with no \<^verbatim>\<open>=\<close> gives nothing; otherwise
  the key is what stands before the first \<^verbatim>\<open>=\<close> and the value all that stands
  after it.
\<close>

definition parse_spec :: "string \<Rightarrow> (string \<times> string) option" where
  "parse_spec record =
     (if CHR ''='' \<in> set record
      then Some (takeWhile (\<lambda>c. c \<noteq> CHR ''='') record,
                 tl (dropWhile (\<lambda>c. c \<noteq> CHR ''='') record))
      else None)"

text \<open>
  The specification's accumulator: the values of the pairs whose key is the requested
  one, in the order of the records.
\<close>

definition accumulator_spec :: "string \<Rightarrow> string list \<Rightarrow> string list" where
  "accumulator_spec key records =
     map snd (filter (\<lambda>p. fst p = key) (List.map_filter parse_spec records))"

subsection \<open>The JSON encoder of the standard library\<close>

text \<open>
  \<^verbatim>\<open>utf8.DecodeRuneInString\<close>. A byte is a number below 256 and a rune a natural
  number. The table \<^verbatim>\<open>first\<close> of the library gives, for a leading byte of a
  multi-byte sequence, the length of the sequence and the range accepted for its
  second byte; every other byte from \<open>0x80\<close> on is invalid.
\<close>

definition RuneError :: nat where
  "RuneError = 0xFFFD"

definition first :: "nat \<Rightarrow> (nat \<times> nat \<times> nat) option" where
  "first b =
     (if 0xC2 \<le> b \<and> b \<le> 0xDF then Some (2, 0x80, 0xBF)
      else if b = 0xE0 then Some (3, 0xA0, 0xBF)
      else if 0xE1 \<le> b \<and> b \<le> 0xEC then Some (3, 0x80, 0xBF)
      else if b = 0xED then Some (3, 0x80, 0x9F)
      else if 0xEE \<le> b \<and> b \<le> 0xEF then Some (3, 0x80, 0xBF)
      else if b = 0xF0 then Some (4, 0x90, 0xBF)
      else if 0xF1 \<le> b \<and> b \<le> 0xF3 then Some (4, 0x80, 0xBF)
      else if b = 0xF4 then Some (4, 0x80, 0x8F)
      else None)"

definition DecodeRuneInString :: "nat list \<Rightarrow> nat \<times> nat" where
  "DecodeRuneInString s =
     (case s of
        [] \<Rightarrow> (RuneError, 0)
      | s0 # _ \<Rightarrow>
          if s0 < 0x80 then (s0, 1)
          else (case first s0 of
             None \<Rightarrow> (RuneError, 1)
           | Some (sz, lo, hi) \<Rightarrow>
               if length s < sz then (RuneError, 1)
               else let s1 = s ! 1 in
               if s1 < lo \<or> hi < s1 then (RuneError, 1)
               else if sz \<le> 2 then (push_bit 6 (s0 AND 0x1F) OR (s1 AND 0x3F), 2)
               else let s2 = s ! 2 in
               if s2 < 0x80 \<or> 0xBF < s2 then (RuneError, 1)
               else if sz \<le> 3
                 then (push_bit 12 (s0 AND 0x0F) OR push_bit 6 (s1 AND 0x3F) OR (s2 AND 0x3F), 3)
               else let s3 = s ! 3 in
               if s3 < 0x80 \<or> 0xBF < s3 then (RuneError, 1)
               else (push_bit 18 (s0 AND 0x07) OR push_bit 12 (s1 AND 0x3F)
                       OR push_bit 6 (s2 AND 0x3F) OR (s3 AND 0x3F), 4)))"

text \<open>
  The bytes below \<open>0x80\<close> that the encoder writes as they are: \<^verbatim>\<open>safeSet\<close> holds
  every byte from the space on except the double quote and the backslash, and
  \<^verbatim>\<open>htmlSafeSet\<close> leaves out \<^verbatim>\<open><\<close>, \<^verbatim>\<open>>\<close> and \<^verbatim>\<open>&\<close> as well.
\<close>

definition safeSet :: "nat \<Rightarrow> bool" where
  "safeSet b = (0x20 \<le> b \<and> b < 0x80 \<and> b \<noteq> 0x22 \<and> b \<noteq> 0x5C)"

definition htmlSafeSet :: "nat \<Rightarrow> bool" where
  "htmlSafeSet b = (safeSet b \<and> b \<noteq> 0x3C \<and> b \<noteq> 0x3E \<and> b \<noteq> 0x26)"

definition hex :: string where
  "hex = ''0123456789abcdef''"

text \<open>
  The escape written for a byte below \<open>0x80\<close> that is not written as it is. The short
  escapes of the backspace and the form feed are those of the library from Go 1.22 on
  (earlier releases wrote \<^verbatim>\<open>\u0008\<close> and \<^verbatim>\<open>\u000c\<close>); no property below
  depends on them.
\<close>

definition escapeByte :: "nat \<Rightarrow> string" where
  "escapeByte b =
     (if b = 0x5C \<or> b = 0x22 then [CHR 0x5C, char_of b]
      else if b = 0x08 then [CHR 0x5C, CHR ''b'']
      else if b = 0x0C then [CHR 0x5C, CHR ''f'']
      else if b = 0x0A then [CHR 0x5C, CHR ''n'']
      else if b = 0x0D then [CHR 0x5C, CHR ''r'']
      else if b = 0x09 then [CHR 0x5C, CHR ''t'']
      else [CHR 0x5C, CHR ''u'', CHR ''0'', CHR ''0'', hex ! drop_bit 4 b, hex ! (b AND 0xF)])"

text \<open>
  The loop of \<^verbatim>\<open>appendString\<close> on the rest of the string: one byte below
  \<open>0x80\<close>, or one rune decoded from at most four bytes, at a time. For a byte that
  is not valid UTF-8 the encoder of a current toolchain (\<^verbatim>\<open>encoding/json\<close> built on
  \<^verbatim>\<open>encoding/json/v2\<close>) writes the replacement character itself, the three bytes
  \<open>EF BF BD\<close>, and the definition follows it; the encoder before it wrote the escape
  \<^verbatim>\<open>\ufffd\<close> there. No property below depends on that branch, nor on the escapes of
  the runes \<open>U+2028\<close> and \<open>U+2029\<close>.
\<close>

function appendString_loop :: "bool \<Rightarrow> string \<Rightarrow> string" where
  "appendString_loop escapeHTML src =
     (case src of
        [] \<Rightarrow> []
      | c # rest \<Rightarrow>
          let b = (of_char c :: nat) in
          if b < 0x80 then
            (if htmlSafeSet b \<or> (\<not> escapeHTML \<and> safeSet b) then [c] else escapeByte b)
              @ appendString_loop escapeHTML rest
          else
            let (r, size) = DecodeRuneInString (map of_char (take 4 src)) in
            if r = RuneError \<and> size = 1 then
              [CHR 0xEF, CHR 0xBF, CHR 0xBD] @ appendString_loop escapeHTML rest
            else if r = 0x2028 \<or> r = 0x2029 then
              [CHR 0x5C, CHR ''u'', CHR ''2'', CHR ''0'', CHR ''2'', hex ! (r AND 0xF)]
                @ appendString_loop escapeHTML (drop size src)
            else take size src @ appendString_loop escapeHTML (drop size src))"
  by pat_completeness auto
termination
proof -
  have size: "0 < size"
    if "(r, size) = DecodeRuneInString (map of_char (take 4 (c # rest)))"
    for r size and c :: char and rest
  proof -
    have "0 < snd (DecodeRuneInString (map of_char (take 4 (c # rest))))"
      by (simp add: DecodeRuneInString_def Let_def split: option.splits)
    with that show ?thesis
      by (metis snd_conv)
  qed
  show ?thesis
  proof (relation "measure (\<lambda>(escapeHTML, src). length src)")
    show "wf (measure (\<lambda>(escapeHTML, src). length src))"
      by simp
  next
    fix escapeHTML :: bool and src :: string and c rest
    assume "src = c # rest"
    then show "((escapeHTML, rest), (escapeHTML, src)) \<in> measure (\<lambda>(escapeHTML, src). length src)"
      by simp
  next
    fix escapeHTML :: bool and src :: string and c rest
    assume "src = c # rest"
    then show "((escapeHTML, rest), (escapeHTML, src)) \<in> measure (\<lambda>(escapeHTML, src). length src)"
      by simp
  next
    fix escapeHTML :: bool and src :: string and c rest x r size
    assume "src = c # rest" and "x = DecodeRuneInString (map of_char (take 4 src))"
      and "(r, size) = x"
    then show "((escapeHTML, drop size src), (escapeHTML, src))
        \<in> measure (\<lambda>(escapeHTML, src). length src)"
      using size [of r size c rest] by simp
  next
    fix escapeHTML :: bool and src :: string and c rest x r size
    assume "src = c # rest" and "x = DecodeRuneInString (map of_char (take 4 src))"
      and "(r, size) = x"
    then show "((escapeHTML, drop size src), (escapeHTML, src))
        \<in> measure (\<lambda>(escapeHTML, src). length src)"
      using size [of r size c rest] by simp
  qed
qed

declare appendString_loop.simps [simp del]

text \<open>\<^verbatim>\<open>appendString\<close>: the string between double quotes.\<close>

definition appendString :: "bool \<Rightarrow> string \<Rightarrow> string" where
  "appendString escapeHTML src = [CHR 0x22] @ appendString_loop escapeHTML src @ [CHR 0x22]"

text \<open>
  The elements of an array, given the encoding of each: every encoding but the first
  is preceded by a comma.
\<close>

fun arrayElements :: "string list \<Rightarrow> string" where
  "arrayElements [] = []"
| "arrayElements [e] = e"
| "arrayElements (e # es) = e @ '','' @ arrayElements es"

text \<open>
  The encoding of a \<^verbatim>\<open>[]string\<close>: \<^verbatim>\<open>null\<close> for the nil slice, and otherwise
  the elements, each encoded as a string, between brackets.
\<close>

fun marshalStrings :: "bool \<Rightarrow> string slice \<Rightarrow> string" where
  "marshalStrings escapeHTML NilSlice = ''null''"
| "marshalStrings escapeHTML (Slice vs) =
     ''['' @ arrayElements (map (appendString escapeHTML) vs) @ '']''"

subsection \<open>The sink\<close>

text \<open>
  The sink is an \<^verbatim>\<open>io.Writer\<close>: a state of any type \<open>'s\<close>, and a \<^verbatim>\<open>Write\<close> method
  that takes the state and the bytes to a new state and to an error or none. The
  formatter reaches the sink through \<^verbatim>\<open>Write\<close> only, so a sink state that is
  unchanged means that no \<^verbatim>\<open>Write\<close> took place.
\<close>

type_synonym ('s, 'e) Writer = "'s \<Rightarrow> string \<Rightarrow> 's \<times> 'e option"

text \<open>A sink that keeps every byte and never fails, as a \<^verbatim>\<open>bytes.Buffer\<close> does.\<close>

definition Buffer_Write :: "(string, 'e) Writer" where
  "Buffer_Write buf p = (buf @ p, None)"

text \<open>
  \<^verbatim>\<open>fmt.Fprintln(w, s)\<close> for one string operand: one \<^verbatim>\<open>Write\<close> of the string
  and a newline.
\<close>

definition Fprintln :: "('s, 'e) Writer \<Rightarrow> 's \<Rightarrow> string \<Rightarrow> 's \<times> 'e option" where
  "Fprintln Write sink a = Write sink (a @ [CHR 0x0A])"

text \<open>
  \<^verbatim>\<open>Encoder.Encode\<close> on a string and on a \<^verbatim>\<open>[]string\<close>: neither encoding can
  fail, and the encoder makes one \<^verbatim>\<open>Write\<close> of the encoding and a newline.
\<close>

definition Encode_string :: "('s, 'e) Writer \<Rightarrow> bool \<Rightarrow> 's \<Rightarrow> string \<Rightarrow> 's \<times> 'e option" where
  "Encode_string Write escapeHTML sink v = Write sink (appendString escapeHTML v @ [CHR 0x0A])"

definition Encode_strings ::
  "('s, 'e) Writer \<Rightarrow> bool \<Rightarrow> 's \<Rightarrow> string slice \<Rightarrow> 's \<times> 'e option" where
  "Encode_strings Write escapeHTML sink vs = Write sink (marshalStrings escapeHTML vs @ [CHR 0x0A])"

subsection \<open>The formatter\<close>

text \<open>
  The ways \<^verbatim>\<open>output\<close> ends other than with \<^verbatim>\<open>nil\<close>: the error of the check on
  the number of values (with the number and the values), an error of
  \<^verbatim>\<open>Fprintln\<close> returned as it is, an error of the encoder wrapped as
  \<^verbatim>\<open>error writing JSON\<close>, and the panic of \<^verbatim>\<open>values[0]\<close> on no values.
\<close>

datatype 'e output_error =
    ExpectedOneValue nat "string slice"
  | WriteError 'e
  | JSONError 'e
  | IndexOutOfRange

text \<open>The loop of the plain format: it returns at the first failed \<^verbatim>\<open>Fprintln\<close>.\<close>

fun output_plain :: "('s, 'e) Writer \<Rightarrow> 's \<Rightarrow> string list \<Rightarrow> 's \<times> 'e output_error option" where
  "output_plain Write sink [] = (sink, None)"
| "output_plain Write sink (record # rest) =
     (case Fprintln Write sink record of
        (sink', Some err) \<Rightarrow> (sink', Some (WriteError err))
      | (sink', None) \<Rightarrow> output_plain Write sink' rest)"

text \<open>The check \<^verbatim>\<open>if err != nil\<close> after the encoder.\<close>

definition wrapJSON :: "'s \<times> 'e option \<Rightarrow> 's \<times> 'e output_error option" where
  "wrapJSON r = (case r of (sink', Some err) \<Rightarrow> (sink', Some (JSONError err)) | (sink', None) \<Rightarrow> (sink', None))"

text \<open>
  The JSON format: the inner \<^verbatim>\<open>switch\<close> on the value type has no default, so
  a value type that is neither \<^verbatim>\<open>single\<close> nor \<^verbatim>\<open>list\<close> writes nothing.
\<close>

definition output_json ::
  "('s, 'e) Writer \<Rightarrow> string \<Rightarrow> 's \<Rightarrow> string slice \<Rightarrow> 's \<times> 'e output_error option" where
  "output_json Write vt sink values =
     (if vt = ''single'' then
        (case elems values of
           [] \<Rightarrow> (sink, Some IndexOutOfRange)
         | v # _ \<Rightarrow> wrapJSON (Encode_string Write False sink v))
      else if vt = ''list'' then wrapJSON (Encode_strings Write False sink values)
      else (sink, None))"

text \<open>
  \<^verbatim>\<open>output\<close> of \<^verbatim>\<open>src/main.go\<close> (the name is a keyword of Isabelle, hence
  \<open>output_values\<close>): the result is the state of the sink afterwards and the error,
  if any.
\<close>

definition output_values ::
  "('s, 'e) Writer \<Rightarrow> options \<Rightarrow> 's \<Rightarrow> string slice \<Rightarrow> 's \<times> 'e output_error option" where
  "output_values Write opts sink values =
     (if valueType opts = ''single'' \<and> len values \<noteq> 1
      then (sink, Some (ExpectedOneValue (len values) values))
      else if outputFormat opts = ''json'' then output_json Write (valueType opts) sink values
      else if outputFormat opts = ''plain'' then output_plain Write sink (elems values)
      else (sink, None))"

text \<open>\<^verbatim>\<open>output\<close> of the earlier variant: the plain format is the first case.\<close>

definition output_values_v1 ::
  "('s, 'e) Writer \<Rightarrow> options_v1 \<Rightarrow> 's \<Rightarrow> string slice \<Rightarrow> 's \<times> 'e output_error option" where
  "output_values_v1 Write opts sink values =
     (if valueType opts = ''single'' \<and> len values \<noteq> 1
      then (sink, Some (ExpectedOneValue (len values) values))
      else if outputFormat opts = ''plain'' then output_plain Write sink (elems values)
      else if outputFormat opts = ''json'' then output_json Write (valueType opts) sink values
      else (sink, None))"

section \<open>Properties\<close>

subsection \<open>Slices, the split and the loop\<close>

lemma len_simps:
  "len NilSlice = 0" "len (Slice xs) = length xs" "len (append_slice s x) = Suc (len s)"
  by (simp_all add: len_def append_slice_def)

lemma IndexByte_None_iff: "IndexByte s c = None \<longleftrightarrow> c \<notin> set s"
  by (induction s) auto

lemma IndexByte_prefix: "c \<notin> set k \<Longrightarrow> IndexByte (k @ c # v) c = Some (length k)"
  by (induction k) auto

lemma SplitN2_no_sep: "c \<notin> set s \<Longrightarrow> SplitN2 s c = [s]"
  by (simp add: SplitN2_def IndexByte_None_iff [THEN iffD2])

lemma SplitN2_sep: "c \<notin> set k \<Longrightarrow> SplitN2 (k @ c # v) c = [k, v]"
  by (simp add: SplitN2_def IndexByte_prefix)

text \<open>A string whose first \<open>c\<close> is at index \<open>i\<close> is cut there.\<close>

lemma first_position:
  assumes "i < length s" "s ! i = c" "\<forall>j<i. s ! j \<noteq> c"
  shows "s = take i s @ c # drop (Suc i) s \<and> c \<notin> set (take i s)"
proof
  show "s = take i s @ c # drop (Suc i) s"
    using assms(1,2) by (metis id_take_nth_drop)
  show "c \<notin> set (take i s)"
    using assms(1,3) by (auto simp: in_set_conv_nth)
qed

lemma SplitN2_at:
  assumes "i < length s" "s ! i = c" "\<forall>j<i. s ! j \<noteq> c"
  shows "SplitN2 s c = [take i s, drop (Suc i) s]"
proof -
  from first_position [OF assms]
  have eq: "s = take i s @ c # drop (Suc i) s" and k: "c \<notin> set (take i s)"
    by simp_all
  from SplitN2_sep [OF k, of "drop (Suc i) s"] eq show ?thesis
    by simp
qed

lemma parse_spec_no_sep: "CHR ''='' \<notin> set r \<Longrightarrow> parse_spec r = None"
  by (simp add: parse_spec_def)

lemma parse_spec_sep: "CHR ''='' \<notin> set k \<Longrightarrow> parse_spec (k @ CHR ''='' # v) = Some (k, v)"
  by (induction k) (auto simp: parse_spec_def)

text \<open>The split of the source and the parser of the specification agree.\<close>

lemma SplitN2_parse_spec:
  "SplitN2 r (CHR ''='') = (case parse_spec r of None \<Rightarrow> [r] | Some (k, v) \<Rightarrow> [k, v])"
proof (cases "CHR ''='' \<in> set r")
  case False
  then show ?thesis
    by (simp add: SplitN2_no_sep parse_spec_no_sep)
next
  case True
  then obtain k v where r: "r = k @ CHR ''='' # v" and k: "CHR ''='' \<notin> set k"
    by (meson split_list_first)
  then show ?thesis
    by (simp add: SplitN2_sep parse_spec_sep)
qed

lemma loop_step:
  "lookUpValues_loop key values (r # rest) =
     (case parse_spec r of
        None \<Rightarrow> lookUpValues_loop key values rest
      | Some (k, v) \<Rightarrow>
          if k = key then lookUpValues_loop key (append_slice values v) rest
          else lookUpValues_loop key values rest)"
  by (simp add: SplitN2_parse_spec split: option.splits)

lemma accumulator_spec_Nil: "accumulator_spec key [] = []"
  by (simp add: accumulator_spec_def List.map_filter_simps)

lemma accumulator_spec_Cons:
  "accumulator_spec key (r # rest) =
     (case parse_spec r of
        None \<Rightarrow> accumulator_spec key rest
      | Some (k, v) \<Rightarrow> if k = key then v # accumulator_spec key rest else accumulator_spec key rest)"
  by (simp add: accumulator_spec_def List.map_filter_simps split: option.splits)

text \<open>
  The loop, whatever the accumulator it starts from: the accumulator is returned as
  it is (nil when it was nil) when no record matches, and a slice with the matching
  values appended otherwise.
\<close>

lemma loop_eq:
  "lookUpValues_loop key values records =
     (if accumulator_spec key records = [] then values
      else Slice (elems values @ accumulator_spec key records))"
proof (induction records arbitrary: "values")
  case Nil
  then show ?case by (simp add: accumulator_spec_Nil)
next
  case (Cons r rest)
  show ?case
    unfolding loop_step accumulator_spec_Cons
    by (simp add: Cons.IH append_slice_def split: option.splits)
qed

lemma loop_append:
  "lookUpValues_loop key values (xs @ ys) = lookUpValues_loop key (lookUpValues_loop key values xs) ys"
  by (induction xs arbitrary: "values") (simp_all add: Let_def)

lemma values_after_loop_eq:
  "values_after_loop records key =
     (if accumulator_spec key (elems records) = [] then NilSlice
      else Slice (accumulator_spec key (elems records)))"
  by (simp add: values_after_loop_def loop_eq)

lemma values_after_default_eq:
  "values_after_default records key defaultValues =
     (if accumulator_spec key (elems records) = [] then defaultValues
      else Slice (accumulator_spec key (elems records)))"
  by (simp add: values_after_default_def Let_def values_after_loop_eq len_simps)

text \<open>A record matches a key when it parses to a pair with that key.\<close>

lemma matches_parse_spec: "matches key r \<longleftrightarrow> (\<exists>v. parse_spec r = Some (key, v))"
  by (auto simp: matches_def SplitN2_parse_spec split: option.splits)

lemma accumulator_spec_empty_iff:
  "accumulator_spec key records = [] \<longleftrightarrow> (\<forall>r \<in> set records. \<not> matches key r)"
proof (induction records)
  case Nil
  then show ?case by (simp add: accumulator_spec_Nil)
next
  case (Cons r rest)
  then show ?case
    by (auto simp: accumulator_spec_Cons matches_parse_spec split: option.splits)
qed

lemma len_values_after_loop_0_iff:
  "len (values_after_loop records key) = 0 \<longleftrightarrow> (\<forall>r \<in> set (elems records). \<not> matches key r)"
  by (simp add: values_after_loop_eq len_simps accumulator_spec_empty_iff)

lemma values_after_loop_ignores:
  assumes "CHR ''='' \<notin> set raw"
  shows "values_after_loop (Slice (pre @ raw # post)) key = values_after_loop (Slice (pre @ post)) key"
proof -
  have "lookUpValues_loop key vs (raw # post) = lookUpValues_loop key vs post" for vs
    using assms by (simp add: SplitN2_no_sep)
  then show ?thesis
    by (simp add: values_after_loop_def loop_append)
qed

subsection \<open>The sink and the encoder\<close>

lemma output_plain_Buffer:
  "output_plain Buffer_Write sink vs = (sink @ concat (map (\<lambda>v. v @ [CHR 0x0A]) vs), None)"
  by (induction vs arbitrary: sink) (simp_all add: Fprintln_def Buffer_Write_def)

text \<open>With a sink that never fails, the plain loop makes one write for each value.\<close>

lemma output_plain_no_failure:
  assumes "\<forall>s p. snd (Write s p) = None"
  shows "output_plain Write sink vs
           = (foldl (\<lambda>s v. fst (Write s (v @ [CHR 0x0A]))) sink vs, None)"
proof (induction vs arbitrary: sink)
  case Nil
  show ?case by simp
next
  case (Cons v vs)
  from assms have "snd (Write sink (v @ [CHR 0x0A])) = None"
    by simp
  then obtain s' where "Write sink (v @ [CHR 0x0A]) = (s', None)"
    by (cases "Write sink (v @ [CHR 0x0A])") simp
  then show ?case
    by (simp add: Fprintln_def Cons.IH)
qed

lemma wrapJSON_Buffer: "wrapJSON (Buffer_Write sink p) = (sink @ p, None)"
  by (simp add: wrapJSON_def Buffer_Write_def)

lemma safeSet_below: "safeSet b \<Longrightarrow> b < 0x80"
  by (simp add: safeSet_def)

lemma appendString_loop_Nil: "appendString_loop escapeHTML [] = []"
  by (simp add: appendString_loop.simps)

lemma appendString_loop_safe_byte:
  "safeSet (of_char c) \<Longrightarrow> appendString_loop False (c # rest) = c # appendString_loop False rest"
  by (subst appendString_loop.simps) (simp add: safeSet_below Let_def)

lemma appendString_loop_safe:
  "\<forall>c \<in> set v. safeSet (of_char c) \<Longrightarrow> appendString_loop False v = v"
  by (induction v) (simp_all add: appendString_loop_Nil appendString_loop_safe_byte)

lemma appendString_safe:
  "\<forall>c \<in> set v. safeSet (of_char c) \<Longrightarrow> appendString False v = [CHR 0x22] @ v @ [CHR 0x22]"
  by (simp add: appendString_def appendString_loop_safe)

text \<open>With HTML escaping on, the encoder would write escapes for the three bytes.\<close>

lemma appendString_escapeHTML:
  "appendString True ''<>&''
     = [CHR 0x22] @ [CHR 0x5C] @ ''u003c'' @ [CHR 0x5C] @ ''u003e'' @ [CHR 0x5C] @ ''u0026'' @ [CHR 0x22]"
  by code_simp

text \<open>
  \<^verbatim>\<open>values[0]\<close> never panics in \<^verbatim>\<open>output\<close>: the check on the number of values
  comes first.
\<close>

lemma output_plain_no_panic: "snd (output_plain Write sink vs) \<noteq> Some IndexOutOfRange"
  by (induction vs arbitrary: sink) (auto simp: Fprintln_def split: prod.splits option.splits)

lemma wrapJSON_no_panic: "snd (wrapJSON r) \<noteq> Some IndexOutOfRange"
  by (auto simp: wrapJSON_def split: prod.splits option.splits)

lemma output_values_no_panic: "snd (output_values Write opts sink values) \<noteq> Some IndexOutOfRange"
  by (auto simp: output_values_def output_json_def len_def output_plain_no_panic wrapJSON_no_panic
      split: list.splits)

subsection \<open>The lookup\<close>

text \<open>
  Claim C1. In single mode the result of \<^verbatim>\<open>lookUpValues\<close> is decided by the number of
  values left after the defaults have been applied: with exactly one value the lookup
  succeeds with that value; with none it fails with the error that names the key
  (\<open>NoValue\<close>); with more than one it fails with the error that carries the number of
  values and the key (\<open>TooManyValues\<close>). In particular, when no record matches and
  two or more defaults are given, this check of \<^verbatim>\<open>lookUpValues\<close> itself fails the
  lookup, with the number of defaults. \<^verbatim>\<open>lookUpValues\<close> of the earlier variant
  returns the same in every case.
\<close>

theorem single_mode_cardinality:
  assumes "valueType opts = ''single''"
  shows "(len (values_after_default records key defaultValues) = 1 \<longrightarrow>
            lookUpValues opts records key defaultValues
              = Inr (values_after_default records key defaultValues)
            \<and> (\<exists>v. elems (values_after_default records key defaultValues) = [v]))
    \<and> (len (values_after_default records key defaultValues) = 0 \<longrightarrow>
            lookUpValues opts records key defaultValues = Inl (NoValue key))
    \<and> (1 < len (values_after_default records key defaultValues) \<longrightarrow>
            lookUpValues opts records key defaultValues
              = Inl (TooManyValues (len (values_after_default records key defaultValues)) key))
    \<and> ((\<forall>r \<in> set (elems records). \<not> matches key r) \<and> 2 \<le> len defaultValues \<longrightarrow>
            lookUpValues opts records key defaultValues
              = Inl (TooManyValues (len defaultValues) key))
    \<and> lookUpValues_v1 (options_v1.truncate opts) records key defaultValues
         = lookUpValues opts records key defaultValues"
proof (intro conjI impI)
  assume one: "len (values_after_default records key defaultValues) = 1"
  with assms show "lookUpValues opts records key defaultValues
      = Inr (values_after_default records key defaultValues)"
    by (simp add: lookUpValues_def)
  from one show "\<exists>v. elems (values_after_default records key defaultValues) = [v]"
    by (simp add: len_def length_Suc_conv)
next
  assume "len (values_after_default records key defaultValues) = 0"
  with assms show "lookUpValues opts records key defaultValues = Inl (NoValue key)"
    by (simp add: lookUpValues_def)
next
  assume "1 < len (values_after_default records key defaultValues)"
  with assms show "lookUpValues opts records key defaultValues
      = Inl (TooManyValues (len (values_after_default records key defaultValues)) key)"
    by (simp add: lookUpValues_def)
next
  assume "(\<forall>r \<in> set (elems records). \<not> matches key r) \<and> 2 \<le> len defaultValues"
  then have "len (values_after_loop records key) = 0" and "2 \<le> len defaultValues"
    by (simp_all add: len_values_after_loop_0_iff)
  with assms show "lookUpValues opts records key defaultValues
      = Inl (TooManyValues (len defaultValues) key)"
    by (simp add: lookUpValues_def values_after_default_def)
next
  show "lookUpValues_v1 (options_v1.truncate opts) records key defaultValues
      = lookUpValues opts records key defaultValues"
    by (simp add: lookUpValues_def lookUpValues_v1_def options_v1.truncate_def)
qed

text \<open>
  The theorem at four inputs: two matching records (the records of Scenario E), one
  matching record, no record and no default, and no matching record with two defaults.
  The message of the first error is spelled out.
\<close>

theorem single_mode_cardinality_witness:
  "lookUpValues \<lparr>outputFormat = ''plain'', valueType = ''single'', nameserver = ''''\<rparr>
       (Slice [''k=1'', ''k=2'']) ''k'' (Slice [])
     = Inl (TooManyValues 2 ''k'')
   \<and> Error (TooManyValues 2 ''k'') = ''2 values found for key k, but only 1 was expected''
   \<and> lookUpValues \<lparr>outputFormat = ''plain'', valueType = ''single'', nameserver = ''''\<rparr>
       (Slice [''foo=bar'', ''key=value'']) ''key'' (Slice [])
     = Inr (Slice [''value''])
   \<and> lookUpValues \<lparr>outputFormat = ''plain'', valueType = ''single'', nameserver = ''''\<rparr>
       (Slice []) ''k'' (Slice [])
     = Inl (NoValue ''k'')
   \<and> lookUpValues \<lparr>outputFormat = ''plain'', valueType = ''single'', nameserver = ''''\<rparr>
       (Slice [''foo=bar'']) ''k'' (Slice [''a'', ''b''])
     = Inl (TooManyValues 2 ''k'')"
proof -
  let ?opts = "\<lparr>outputFormat = ''plain'', valueType = ''single'', nameserver = ''''\<rparr>"
  have single: "valueType ?opts = ''single''"
    by simp
  have loop1: "values_after_loop (Slice [''k=1'', ''k=2'']) ''k'' = Slice [''1'', ''2'']"
    and loop2: "values_after_loop (Slice [''foo=bar'', ''key=value'']) ''key'' = Slice [''value'']"
    and loop3: "values_after_loop (Slice []) ''k'' = NilSlice"
    by (simp_all add: values_after_loop_def SplitN2_def append_slice_def)
  have msg: "Error (TooManyValues 2 ''k'') = ''2 values found for key k, but only 1 was expected''"
    by code_simp
  from single_mode_cardinality [OF single, of "Slice [''k=1'', ''k=2'']" "''k''" "Slice []"]
  have 1: "lookUpValues ?opts (Slice [''k=1'', ''k=2'']) ''k'' (Slice [])
      = Inl (TooManyValues 2 ''k'')"
    by (simp add: values_after_default_def loop1 len_simps)
  from single_mode_cardinality [OF single, of "Slice [''foo=bar'', ''key=value'']" "''key''" "Slice []"]
  have 2: "lookUpValues ?opts (Slice [''foo=bar'', ''key=value'']) ''key'' (Slice [])
      = Inr (Slice [''value''])"
    by (simp add: values_after_default_def loop2 len_simps)
  from single_mode_cardinality [OF single, of "Slice []" "''k''" "Slice []"]
  have 3: "lookUpValues ?opts (Slice []) ''k'' (Slice []) = Inl (NoValue ''k'')"
    by (simp add: values_after_default_def loop3 len_simps)
  have none: "\<forall>r \<in> set (elems (Slice [''foo=bar''])). \<not> matches ''k'' r"
    by (simp add: matches_def SplitN2_def)
  from single_mode_cardinality [OF single, of "Slice [''foo=bar'']" "''k''" "Slice [''a'', ''b'']"] none
  have 4: "lookUpValues ?opts (Slice [''foo=bar'']) ''k'' (Slice [''a'', ''b''])
      = Inl (TooManyValues 2 ''k'')"
    by (simp add: len_simps)
  from 1 msg 2 3 4 show ?thesis
    by simp
qed

text \<open>
  Claim C2. The defaults replace the result all or nothing. When no record matches
  the requested key, the values after the default step, before the check on their
  number, are the defaults themselves, the same slice in the same order, and in list
  mode they are what \<^verbatim>\<open>lookUpValues\<close> returns. When some record matches, the values
  are those the loop has collected from the records, at least one, and nothing of the
  defaults: they, and the result of \<^verbatim>\<open>lookUpValues\<close>, are the same for any other
  defaults.
\<close>

theorem default_all_or_nothing:
  "((\<forall>r \<in> set (elems records). \<not> matches key r) \<longrightarrow>
      values_after_default records key defaultValues = defaultValues
      \<and> (valueType opts = ''list'' \<longrightarrow>
            lookUpValues opts records key defaultValues = Inr defaultValues))
   \<and> ((\<exists>r \<in> set (elems records). matches key r) \<longrightarrow>
      values_after_default records key defaultValues = values_after_loop records key
      \<and> 0 < len (values_after_loop records key)
      \<and> values_after_default records key defaultValues
          = values_after_default records key otherDefaults
      \<and> lookUpValues opts records key defaultValues
          = lookUpValues opts records key otherDefaults)"
proof (intro conjI impI)
  assume "\<forall>r \<in> set (elems records). \<not> matches key r"
  then have "len (values_after_loop records key) = 0"
    by (simp add: len_values_after_loop_0_iff)
  then show same: "values_after_default records key defaultValues = defaultValues"
    by (simp add: values_after_default_def)
  assume "valueType opts = ''list''"
  with same show "lookUpValues opts records key defaultValues = Inr defaultValues"
    by (simp add: lookUpValues_def)
next
  assume "\<exists>r \<in> set (elems records). matches key r"
  then have "len (values_after_loop records key) \<noteq> 0"
    by (simp add: len_values_after_loop_0_iff)
  then show pos: "0 < len (values_after_loop records key)"
    by simp
  then show "values_after_default records key defaultValues = values_after_loop records key"
    by (simp add: values_after_default_def)
  from pos show same: "values_after_default records key defaultValues
      = values_after_default records key otherDefaults"
    by (simp add: values_after_default_def)
  then show "lookUpValues opts records key defaultValues
      = lookUpValues opts records key otherDefaults"
    by (simp add: lookUpValues_def)
qed

text \<open>
  The theorem at the records of Scenario C (none, with the default \<^verbatim>\<open>42\<close>) and at
  one matching record with two defaults that are left aside.
\<close>

theorem default_all_or_nothing_witness:
  "values_after_default (Slice []) ''theanswer'' (Slice [''42'']) = Slice [''42'']
   \<and> lookUpValues \<lparr>outputFormat = ''plain'', valueType = ''list'', nameserver = ''''\<rparr>
        (Slice [''foo=bar'']) ''k'' (Slice [''b'', ''a''])
      = Inr (Slice [''b'', ''a''])
   \<and> values_after_default (Slice [''foo=bar'', ''k=1'']) ''k'' (Slice [''b'', ''a'']) = Slice [''1'']
   \<and> lookUpValues \<lparr>outputFormat = ''plain'', valueType = ''single'', nameserver = ''''\<rparr>
        (Slice [''foo=bar'', ''k=1'']) ''k'' (Slice [''b'', ''a''])
      = lookUpValues \<lparr>outputFormat = ''plain'', valueType = ''single'', nameserver = ''''\<rparr>
        (Slice [''foo=bar'', ''k=1'']) ''k'' (Slice [])"
proof -
  let ?list = "\<lparr>outputFormat = ''plain'', valueType = ''list'', nameserver = ''''\<rparr>"
  let ?single = "\<lparr>outputFormat = ''plain'', valueType = ''single'', nameserver = ''''\<rparr>"
  have none0: "\<forall>r \<in> set (elems (Slice [])). \<not> matches ''theanswer'' r"
    by simp
  have none1: "\<forall>r \<in> set (elems (Slice [''foo=bar''])). \<not> matches ''k'' r"
    by (simp add: matches_def SplitN2_def)
  have some: "\<exists>r \<in> set (elems (Slice [''foo=bar'', ''k=1''])). matches ''k'' r"
    by (simp add: matches_def SplitN2_def)
  have acc: "values_after_loop (Slice [''foo=bar'', ''k=1'']) ''k'' = Slice [''1'']"
    by (simp add: values_after_loop_def SplitN2_def append_slice_def)
  note zero0 = default_all_or_nothing [where records = "Slice []" and key = "''theanswer''"
      and defaultValues = "Slice [''42'']", THEN conjunct1, THEN mp, OF none0]
  note zero1 = default_all_or_nothing [where records = "Slice [''foo=bar'']" and key = "''k''"
      and defaultValues = "Slice [''b'', ''a'']" and opts = ?list, THEN conjunct1, THEN mp, OF none1]
  note more = default_all_or_nothing [where records = "Slice [''foo=bar'', ''k=1'']" and key = "''k''"
      and defaultValues = "Slice [''b'', ''a'']" and otherDefaults = "Slice []" and opts = ?single,
      THEN conjunct2, THEN mp, OF some]
  from zero0 have 1: "values_after_default (Slice []) ''theanswer'' (Slice [''42'']) = Slice [''42'']"
    by simp
  from zero1 have 2: "lookUpValues ?list (Slice [''foo=bar'']) ''k'' (Slice [''b'', ''a''])
      = Inr (Slice [''b'', ''a''])"
    by simp
  from more acc have 3: "values_after_default (Slice [''foo=bar'', ''k=1'']) ''k'' (Slice [''b'', ''a''])
      = Slice [''1'']"
    by simp
  from more have 4: "lookUpValues ?single (Slice [''foo=bar'', ''k=1'']) ''k'' (Slice [''b'', ''a''])
      = lookUpValues ?single (Slice [''foo=bar'', ''k=1'']) ''k'' (Slice [])"
    by simp
  from 1 2 3 4 show ?thesis
    by simp
qed

text \<open>
  Claim C3. A record with no \<^verbatim>\<open>=\<close> splits into one piece, so it yields no pair: the
  loop passes over it, and the result of \<^verbatim>\<open>lookUpValues\<close> (an error included) is the
  same as without the record. A record whose first \<^verbatim>\<open>=\<close> is at index \<open>i\<close> splits into
  the key, the bytes before \<open>i\<close>, and the value, all the bytes after \<open>i\<close>: the value may
  be empty and may hold further \<^verbatim>\<open>=\<close>.
\<close>

theorem record_parse:
  "(CHR ''='' \<notin> set raw \<longrightarrow>
      length (SplitN2 raw (CHR ''='')) = 1
      \<and> lookUpValues_loop key values (raw # rest) = lookUpValues_loop key values rest
      \<and> lookUpValues opts (Slice (pre @ raw # post)) key defaultValues
          = lookUpValues opts (Slice (pre @ post)) key defaultValues)
   \<and> (\<forall>i. i < length raw \<and> raw ! i = CHR ''='' \<and> (\<forall>j<i. raw ! j \<noteq> CHR ''='') \<longrightarrow>
          SplitN2 raw (CHR ''='') = [take i raw, drop (Suc i) raw])"
proof (intro conjI impI allI)
  assume no: "CHR ''='' \<notin> set raw"
  then show "length (SplitN2 raw (CHR ''='')) = 1"
    by (simp add: SplitN2_no_sep)
  from no show "lookUpValues_loop key values (raw # rest) = lookUpValues_loop key values rest"
    by (simp add: SplitN2_no_sep)
  from no show "lookUpValues opts (Slice (pre @ raw # post)) key defaultValues
      = lookUpValues opts (Slice (pre @ post)) key defaultValues"
    by (simp add: lookUpValues_def values_after_default_def values_after_loop_ignores)
next
  fix i
  assume "i < length raw \<and> raw ! i = CHR ''='' \<and> (\<forall>j<i. raw ! j \<noteq> CHR ''='')"
  then show "SplitN2 raw (CHR ''='') = [take i raw, drop (Suc i) raw]"
    by (simp add: SplitN2_at)
qed

text \<open>
  The theorem at a record with two \<^verbatim>\<open>=\<close>, at a record with an empty value, and at
  a record with none, which leaves the lookup of the record after it as it is.
\<close>

theorem record_parse_witness:
  "SplitN2 ''a=b=c'' (CHR ''='') = [''a'', ''b=c'']
   \<and> SplitN2 ''k='' (CHR ''='') = [''k'', '''']
   \<and> length (SplitN2 ''abc'' (CHR ''='')) = 1
   \<and> lookUpValues \<lparr>outputFormat = ''plain'', valueType = ''single'', nameserver = ''''\<rparr>
        (Slice [''abc'', ''k='']) ''k'' (Slice [])
      = Inr (Slice [''''])"
proof -
  let ?opts = "\<lparr>outputFormat = ''plain'', valueType = ''single'', nameserver = ''''\<rparr>"
  have a: "SplitN2 ''a=b=c'' (CHR ''='') = [''a'', ''b=c'']"
    using record_parse [of "''a=b=c''", THEN conjunct2, rule_format, of 1]
    by simp
  have a': "SplitN2 ''k='' (CHR ''='') = [''k'', '''']"
    using record_parse [of "''k=''", THEN conjunct2, rule_format, of 1]
    by simp
  have no: "CHR ''='' \<notin> set ''abc''"
    by simp
  note b = record_parse [where raw = "''abc''" and pre = "[]" and post = "[''k='']"
      and opts = ?opts and key = "''k''" and defaultValues = "Slice []",
      THEN conjunct1, rule_format, OF no]
  have c: "lookUpValues ?opts (Slice [''k='']) ''k'' (Slice []) = Inr (Slice [''''])"
    by (simp add: lookUpValues_def values_after_default_def values_after_loop_def
        SplitN2_def len_def append_slice_def)
  from a a' b c show ?thesis
    by simp
qed

text \<open>
  Claim C4. The values after the loop are the accumulator of the specification: the
  values of the records that parse to a pair with exactly the requested key, in the
  order of the records, each as often as it occurs. Keys are compared byte by byte:
  the key \<^verbatim>\<open>K\<close> matches neither a record with the key \<^verbatim>\<open>K\<close> and a space nor one
  with the key \<^verbatim>\<open>k\<close>, whatever their values.
\<close>

theorem accumulator_is_matching_values:
  "elems (values_after_loop records key) = accumulator_spec key (elems records)
   \<and> values_after_loop (Slice [''K '' @ ''='' @ v, ''k'' @ ''='' @ w]) ''K'' = NilSlice"
proof
  show "elems (values_after_loop records key) = accumulator_spec key (elems records)"
    by (simp add: values_after_loop_eq)
  have 1: "parse_spec (''K '' @ CHR ''='' # v) = Some (''K '', v)"
    by (rule parse_spec_sep) simp
  have 2: "parse_spec (''k'' @ CHR ''='' # w) = Some (''k'', w)"
    by (rule parse_spec_sep) simp
  have "accumulator_spec ''K'' [''K '' @ ''='' @ v, ''k'' @ ''='' @ w] = []"
    using 1 2 by (simp add: accumulator_spec_Cons accumulator_spec_Nil)
  then show "values_after_loop (Slice [''K '' @ ''='' @ v, ''k'' @ ''='' @ w]) ''K'' = NilSlice"
    by (simp add: values_after_loop_eq)
qed

text \<open>
  The theorem at records with a repeated key and a repeated value, and at the two
  near misses.
\<close>

theorem accumulator_is_matching_values_witness:
  "elems (values_after_loop
       (Slice [''things=item2'', ''foo=bar'', ''things=item1'', ''novalue'', ''things=item2''])
       ''things'')
     = [''item2'', ''item1'', ''item2'']
   \<and> values_after_loop (Slice [''K =a'', ''k=b'']) ''K'' = NilSlice"
proof -
  have p: "parse_spec ''things=item2'' = Some (''things'', ''item2'')"
    "parse_spec ''foo=bar'' = Some (''foo'', ''bar'')"
    "parse_spec ''things=item1'' = Some (''things'', ''item1'')"
    "parse_spec ''novalue'' = None"
    by (simp_all add: parse_spec_def)
  have acc: "accumulator_spec ''things''
      [''things=item2'', ''foo=bar'', ''things=item1'', ''novalue'', ''things=item2'']
      = [''item2'', ''item1'', ''item2'']"
    by (simp add: accumulator_spec_Cons accumulator_spec_Nil p)
  from accumulator_is_matching_values
    [of "Slice [''things=item2'', ''foo=bar'', ''things=item1'', ''novalue'', ''things=item2'']"
      "''things''" "''a''" "''b''"]
  show ?thesis
    by (simp add: acc)
qed

text \<open>
  Claim C5. In list mode \<^verbatim>\<open>lookUpValues\<close> never returns an error: it returns the
  values left after the default step, whatever their number, none included.
\<close>

theorem list_mode_succeeds:
  "valueType opts = ''list'' \<Longrightarrow>
     lookUpValues opts records key defaultValues
       = Inr (values_after_default records key defaultValues)"
  by (simp add: lookUpValues_def)

text \<open>The theorem with no record and no default, and with two matching records.\<close>

theorem list_mode_succeeds_witness:
  "lookUpValues \<lparr>outputFormat = ''json'', valueType = ''list'', nameserver = ''''\<rparr>
       (Slice []) ''k'' (Slice [])
     = Inr (Slice [])
   \<and> lookUpValues \<lparr>outputFormat = ''json'', valueType = ''list'', nameserver = ''''\<rparr>
       (Slice [''k=1'', ''k=2'']) ''k'' (Slice [])
     = Inr (Slice [''1'', ''2''])"
proof -
  let ?opts = "\<lparr>outputFormat = ''json'', valueType = ''list'', nameserver = ''''\<rparr>"
  have list: "valueType ?opts = ''list''"
    by simp
  have d0: "values_after_default (Slice []) ''k'' (Slice []) = Slice []"
    and d2: "values_after_default (Slice [''k=1'', ''k=2'']) ''k'' (Slice []) = Slice [''1'', ''2'']"
    by (simp_all add: values_after_default_def values_after_loop_def SplitN2_def
        append_slice_def len_def)
  from list_mode_succeeds [OF list, of "Slice []" "''k''" "Slice []"]
    list_mode_succeeds [OF list, of "Slice [''k=1'', ''k=2'']" "''k''" "Slice []"]
  show ?thesis
    by (simp add: d0 d2)
qed

subsection \<open>The formatter\<close>

text \<open>
  Claim C6. In single mode, on a value set whose length is not 1, \<^verbatim>\<open>output\<close> returns
  the error of its own check on the number of values, whatever the format, and the
  sink is in the state it was in: no \<^verbatim>\<open>Write\<close> has taken place, so the sink has
  received no byte. This holds for \<^verbatim>\<open>output\<close> of either variant.
\<close>

theorem single_precheck_writes_nothing:
  assumes "len values \<noteq> 1"
  shows "(valueType opts = ''single'' \<longrightarrow>
            output_values Write opts sink values
              = (sink, Some (ExpectedOneValue (len values) values)))
    \<and> (valueType earlier = ''single'' \<longrightarrow>
            output_values_v1 Write earlier sink values
              = (sink, Some (ExpectedOneValue (len values) values)))"
  using assms by (simp add: output_values_def output_values_v1_def)

text \<open>
  The theorem in the JSON format on two values and in the plain format on the nil
  slice, with a sink that holds bytes already.
\<close>

theorem single_precheck_writes_nothing_witness:
  "output_values (Buffer_Write :: (string, unit) Writer)
       \<lparr>outputFormat = ''json'', valueType = ''single'', nameserver = ''''\<rparr>
       ''sofar'' (Slice [''a'', ''b''])
     = (''sofar'', Some (ExpectedOneValue 2 (Slice [''a'', ''b''])))
   \<and> output_values (Buffer_Write :: (string, unit) Writer)
       \<lparr>outputFormat = ''plain'', valueType = ''single'', nameserver = ''''\<rparr>
       ''sofar'' NilSlice
     = (''sofar'', Some (ExpectedOneValue 0 NilSlice))
   \<and> output_values_v1 (Buffer_Write :: (string, unit) Writer)
       \<lparr>outputFormat = ''plain'', valueType = ''single''\<rparr> ''sofar'' (Slice [])
     = (''sofar'', Some (ExpectedOneValue 0 (Slice [])))"
proof -
  have two: "len (Slice [''a'', ''b'']) \<noteq> 1" and none: "len (NilSlice :: string slice) \<noteq> 1"
    and empty: "len (Slice [] :: string slice) \<noteq> 1"
    by (simp_all add: len_def)
  note a = single_precheck_writes_nothing [OF two,
      where opts = "\<lparr>outputFormat = ''json'', valueType = ''single'', nameserver = ''''\<rparr>"
      and Write = "Buffer_Write :: (string, unit) Writer" and sink = "''sofar''", THEN conjunct1]
  note b = single_precheck_writes_nothing [OF none,
      where opts = "\<lparr>outputFormat = ''plain'', valueType = ''single'', nameserver = ''''\<rparr>"
      and Write = "Buffer_Write :: (string, unit) Writer" and sink = "''sofar''", THEN conjunct1]
  note c = single_precheck_writes_nothing [OF empty,
      where earlier = "\<lparr>outputFormat = ''plain'', valueType = ''single''\<rparr>"
      and Write = "Buffer_Write :: (string, unit) Writer" and sink = "''sofar''", THEN conjunct2]
  from a b c show ?thesis
    by (simp add: len_def)
qed




text \<open>
  Claim C8. In the plain format, on a value set that passes the check on the number of
  values and with a sink that takes every write, \<^verbatim>\<open>output\<close> makes one \<^verbatim>\<open>Write\<close>
  for each value, in order, of the bytes of the value and a newline, with no quote and
  no escape: a sink that keeps the bytes receives the lines one after the other. For
  the record \<^verbatim>\<open>k=\<close> and the key \<^verbatim>\<open>k\<close> in single mode the lookup gives the empty
  string as the one value, and the output is one empty line.
\<close>

theorem plain_lines:
  assumes "outputFormat opts = ''plain''" and "\<not> (valueType opts = ''single'' \<and> len values \<noteq> 1)"
  shows "((\<forall>s p. snd ((Write :: ('s, 'e) Writer) s p) = None) \<longrightarrow>
            output_values Write opts sink values
              = (foldl (\<lambda>s v. fst (Write s (v @ [CHR 0x0A]))) sink (elems values), None))
    \<and> output_values (Buffer_Write :: (string, 'e) Writer) opts buf values
         = (buf @ concat (map (\<lambda>v. v @ [CHR 0x0A]) (elems values)), None)
    \<and> (valueType opts = ''single'' \<longrightarrow>
         lookUpValues opts (Slice [''k='']) ''k'' defaultValues = Inr (Slice [''''])
         \<and> output_values (Buffer_Write :: (string, 'e) Writer) opts [] (Slice ['''']) = ([CHR 0x0A], None))"
proof (intro conjI impI)
  assume "\<forall>s p. snd (Write s p) = None"
  with assms show "output_values Write opts sink values
      = (foldl (\<lambda>s v. fst (Write s (v @ [CHR 0x0A]))) sink (elems values), None)"
    by (simp add: output_values_def output_plain_no_failure)
next
  from assms show "output_values (Buffer_Write :: (string, 'e) Writer) opts buf values
      = (buf @ concat (map (\<lambda>v. v @ [CHR 0x0A]) (elems values)), None)"
    by (simp add: output_values_def output_plain_Buffer)
next
  assume single: "valueType opts = ''single''"
  have "values_after_default (Slice [''k='']) ''k'' defaultValues = Slice ['''']"
    by (simp add: values_after_default_def values_after_loop_def SplitN2_def append_slice_def len_def)
  with single show "lookUpValues opts (Slice [''k='']) ''k'' defaultValues = Inr (Slice [''''])"
    by (simp add: lookUpValues_def len_def)
  from assms(1) show "output_values (Buffer_Write :: (string, 'e) Writer) opts [] (Slice ['''']) = ([CHR 0x0A], None)"
    by (simp add: output_values_def len_def Fprintln_def Buffer_Write_def)
qed

text \<open>
  The theorem at Scenario A (one value in single mode), at two values in list mode,
  and at Scenario D.
\<close>

theorem plain_lines_witness:
  "output_values (Buffer_Write :: (string, unit) Writer)
       \<lparr>outputFormat = ''plain'', valueType = ''single'', nameserver = ''''\<rparr> [] (Slice [''value''])
     = (''value'' @ [CHR 0x0A], None)
   \<and> output_values (Buffer_Write :: (string, unit) Writer)
       \<lparr>outputFormat = ''plain'', valueType = ''list'', nameserver = ''''\<rparr>
       [] (Slice [''item1'', ''a <b> & c''])
     = (''item1'' @ [CHR 0x0A] @ ''a <b> & c'' @ [CHR 0x0A], None)
   \<and> lookUpValues \<lparr>outputFormat = ''plain'', valueType = ''single'', nameserver = ''''\<rparr>
       (Slice [''k='']) ''k'' (Slice [])
     = Inr (Slice [''''])
   \<and> output_values (Buffer_Write :: (string, unit) Writer)
       \<lparr>outputFormat = ''plain'', valueType = ''single'', nameserver = ''''\<rparr> [] (Slice [''''])
     = ([CHR 0x0A], None)"
proof -
  let ?single = "\<lparr>outputFormat = ''plain'', valueType = ''single'', nameserver = ''''\<rparr>"
  let ?list = "\<lparr>outputFormat = ''plain'', valueType = ''list'', nameserver = ''''\<rparr>"
  have plain: "outputFormat ?single = ''plain''" "outputFormat ?list = ''plain''"
    by simp_all
  have ok1: "\<not> (valueType ?single = ''single'' \<and> len (Slice [''value'']) \<noteq> 1)"
    and ok2: "\<not> (valueType ?list = ''single'' \<and> len (Slice [''item1'', ''a <b> & c'']) \<noteq> 1)"
    by (simp_all add: len_def)
  note a = plain_lines [OF plain(1) ok1, where buf = "[]" and defaultValues = "Slice []"
      and Write = "Buffer_Write :: (string, unit) Writer" and sink = "[]"]
  note b = plain_lines [OF plain(2) ok2, where buf = "[]" and defaultValues = "Slice []"
      and Write = "Buffer_Write :: (string, unit) Writer" and sink = "[]"]
  from a [THEN conjunct2, THEN conjunct1]
  have 1: "output_values (Buffer_Write :: (string, unit) Writer) ?single [] (Slice [''value''])
      = (''value'' @ [CHR 0x0A], None)"
    by simp
  from b [THEN conjunct2, THEN conjunct1]
  have 2: "output_values (Buffer_Write :: (string, unit) Writer) ?list []
      (Slice [''item1'', ''a <b> & c'']) = (''item1'' @ [CHR 0x0A] @ ''a <b> & c'' @ [CHR 0x0A], None)"
    by simp
  from a [THEN conjunct2, THEN conjunct2]
  have 3:"lookUpValues ?single (Slice [''k='']) ''k'' (Slice []) = Inr (Slice [''''])"
    and 4: "output_values (Buffer_Write :: (string, unit) Writer) ?single [] (Slice ['''']) = ([CHR 0x0A], None)"
    by simp_all
  from 1 2 3 4 show ?thesis
    by simp
qed

text \<open>
  Claim C9. The two variants compute the same: on the options of the later variant
  and those options without the name server, \<^verbatim>\<open>lookUpValues\<close> returns the same
  value set or the same error in both, and \<^verbatim>\<open>output\<close> leaves the same sink and
  returns the same error or none in both, for every sink and every input.
\<close>

theorem variants_agree:
  "lookUpValues opts records key defaultValues
     = lookUpValues_v1 (options_v1.truncate opts) records key defaultValues
   \<and> output_values Write opts sink values
     = output_values_v1 Write (options_v1.truncate opts) sink values"
  by (simp add: lookUpValues_def lookUpValues_v1_def output_values_def output_values_v1_def
      options_v1.truncate_def)

text \<open>The theorem at Scenario E and at the JSON format in single mode.\<close>

theorem variants_agree_witness:
  "lookUpValues_v1 \<lparr>outputFormat = ''json'', valueType = ''single''\<rparr>
       (Slice [''k=1'', ''k=2'']) ''k'' (Slice [])
     = Inl (TooManyValues 2 ''k'')
   \<and> output_values_v1 (Buffer_Write :: (string, unit) Writer)
       \<lparr>outputFormat = ''json'', valueType = ''single''\<rparr> [] (Slice [''value''])
     = ([CHR 0x22] @ ''value'' @ [CHR 0x22] @ [CHR 0x0A], None)"
proof -
  let ?opts = "\<lparr>outputFormat = ''json'', valueType = ''single'', nameserver = ''ns.example.com''\<rparr>"
  have t: "options_v1.truncate ?opts = \<lparr>outputFormat = ''json'', valueType = ''single''\<rparr>"
    by (simp add: options_v1.truncate_def)
  have a: "lookUpValues ?opts (Slice [''k=1'', ''k=2'']) ''k'' (Slice []) = Inl (TooManyValues 2 ''k'')"
    by (simp add: lookUpValues_def values_after_default_def values_after_loop_def SplitN2_def
        append_slice_def len_def)
  have v: "appendString False ''value'' = [CHR 0x22] @ ''value'' @ [CHR 0x22]"
    by (rule appendString_safe) (simp add: safeSet_def)
  have b: "output_values (Buffer_Write :: (string, unit) Writer) ?opts [] (Slice [''value''])
      = ([CHR 0x22] @ ''value'' @ [CHR 0x22] @ [CHR 0x0A], None)"
    by (simp add: output_values_def output_json_def Encode_string_def wrapJSON_Buffer len_def v)
  from variants_agree [of ?opts "Slice [''k=1'', ''k=2'']" "''k''" "Slice []"
      "Buffer_Write :: (string, unit) Writer" "[]" "Slice [''value'']"] a b
  show ?thesis
    unfolding t by simp
qed

text \<open>
  Claim C10. On a value set that passes the check on the number of values, with a
  format that is neither \<^verbatim>\<open>plain\<close> nor \<^verbatim>\<open>json\<close> (the format \<^verbatim>\<open>zero\<close> that the
  flag of the later variant accepts, for one), \<^verbatim>\<open>output\<close> returns no error and leaves
  the sink as it was: it writes nothing.
\<close>

theorem other_format_writes_nothing:
  "outputFormat opts \<noteq> ''plain'' \<Longrightarrow> outputFormat opts \<noteq> ''json'' \<Longrightarrow>
   \<not> (valueType opts = ''single'' \<and> len values \<noteq> 1) \<Longrightarrow>
     output_values Write opts sink values = (sink, None)"
  by (simp add: output_values_def)

text \<open>The theorem at the format \<^verbatim>\<open>zero\<close>, in single mode and in list mode.\<close>

theorem other_format_writes_nothing_witness:
  "output_values (Buffer_Write :: (string, unit) Writer)
       \<lparr>outputFormat = ''zero'', valueType = ''single'', nameserver = ''''\<rparr> ''sofar'' (Slice [''value''])
     = (''sofar'', None)
   \<and> output_values (Buffer_Write :: (string, unit) Writer)
       \<lparr>outputFormat = ''zero'', valueType = ''list'', nameserver = ''''\<rparr> ''sofar''
       (Slice [''item1'', ''item2''])
     = (''sofar'', None)"
proof -
  let ?single = "\<lparr>outputFormat = ''zero'', valueType = ''single'', nameserver = ''''\<rparr>"
  let ?list = "\<lparr>outputFormat = ''zero'', valueType = ''list'', nameserver = ''''\<rparr>"
  have f: "outputFormat ?single \<noteq> ''plain''" "outputFormat ?single \<noteq> ''json''"
    "outputFormat ?list \<noteq> ''plain''" "outputFormat ?list \<noteq> ''json''"
    by simp_all
  have ok1: "\<not> (valueType ?single = ''single'' \<and> len (Slice [''value'']) \<noteq> 1)"
    and ok2: "\<not> (valueType ?list = ''single'' \<and> len (Slice [''item1'', ''item2'']) \<noteq> 1)"
    by (simp_all add: len_def)
  from other_format_writes_nothing [OF f(1) f(2) ok1, of "Buffer_Write :: (string, unit) Writer" "''sofar''"]
    other_format_writes_nothing [OF f(3) f(4) ok2, of "Buffer_Write :: (string, unit) Writer" "''sofar''"]
  show ?thesis
    by simp
qed

end
